theory Spec2Isabelle
  imports Complex_Main
begin

section \<open>The granular engine of ambify (useGranularEngine.ts)\<close>

text \<open>
  The hook \<^verbatim>\<open>useGranularEngine\<close> keeps its state in React refs and two state cells and
  exposes \<^verbatim>\<open>loadFile\<close>, \<^verbatim>\<open>start\<close>, \<^verbatim>\<open>stop\<close>, \<^verbatim>\<open>updateParams\<close> and \<^verbatim>\<open>renderLoop\<close>.
  The model follows \<^verbatim>\<open>ambify-alpha/src/app/hooks/useGranularEngine.ts\<close>; the beta copy
  of the hook has the same text for every function modelled here and differs only in an
  additional master gain node between the dry and reverb paths and the destination.

  Conventions of the model:
  \<^item> a JavaScript \<^verbatim>\<open>number\<close> is a real number: arithmetic is exact, and the values
    \<^verbatim>\<open>NaN\<close> and \<^verbatim>\<open>Infinity\<close> and the rounding of doubles are not represented;
  \<^item> the refs and state cells are the fields of one record that every operation takes
    and returns;
  \<^item> \<^verbatim>\<open>Math.random()\<close> is a stream of draws: the \<open>k\<close>-th call of an operation returns
    \<open>rnd k\<close>, and an operation that goes on after \<open>n\<close> draws continues with
    \<open>dropDraws n rnd\<close>;
  \<^item> the Web Audio nodes are reduced to what the hook sets on them; a grain is the
    record of the calls that schedule it.
\<close>

subsection \<open>Data\<close>

record GranularParams =
  grainSizeMs :: real
  density :: real
  playbackRate :: real
  detuneSemitones :: real
  startPoint :: real
  endPoint :: real
  attackMs :: real
  releaseMs :: real
  reverbWet :: real
  reverbDecay :: real

text \<open>\<^verbatim>\<open>Partial<GranularParams>\<close>: every field may be absent.\<close>

record PartialParams =
  partial_grainSizeMs :: "real option"
  partial_density :: "real option"
  partial_playbackRate :: "real option"
  partial_detuneSemitones :: "real option"
  partial_startPoint :: "real option"
  partial_endPoint :: "real option"
  partial_attackMs :: "real option"
  partial_releaseMs :: "real option"
  partial_reverbWet :: "real option"
  partial_reverbDecay :: "real option"

type_synonym random = "nat \<Rightarrow> real"

definition dropDraws :: "nat \<Rightarrow> random \<Rightarrow> random" where
  "dropDraws n rnd = (\<lambda>k. rnd (n + k))"

record AudioContext =
  ctx_sampleRate :: real

text \<open>The decoded source: what the hook reads of an \<^verbatim>\<open>AudioBuffer\<close>.\<close>

record AudioBuffer =
  numberOfChannels :: nat
  buffer_duration :: real

record GainNode =
  gain_value :: real

text \<open>The buffer \<^verbatim>\<open>makeImpulse\<close> returns: one sample list per channel.\<close>

record ImpulseBuffer =
  channelData :: "real list list"
  impulse_sampleRate :: real

record ConvolverNode =
  convolver_buffer :: ImpulseBuffer

record Engine =
  audioCtxRef :: "AudioContext option"
  bufferRef :: "AudioBuffer option"
  paramsRef :: GranularParams
  timerRef :: "real option"
  dryGainRef :: "GainNode option"
  wetGainRef :: "GainNode option"
  reverbRef :: "ConvolverNode option"
  duration :: real
  isPlaying :: bool

text \<open>
  \<open>timerRef = Some ms\<close> is the handle of a running \<^verbatim>\<open>setInterval(spawnGrain, ms)\<close>.
  The hook starts from \<^verbatim>\<open>useRef(null)\<close> everywhere, \<^verbatim>\<open>useState(1)\<close> and
  \<^verbatim>\<open>useState(false)\<close>.
\<close>

definition useGranularEngine :: "GranularParams \<Rightarrow> Engine" where
  "useGranularEngine initial =
     \<lparr>audioCtxRef = None, bufferRef = None, paramsRef = initial, timerRef = None,
      dryGainRef = None, wetGainRef = None, reverbRef = None,
      duration = 1, isPlaying = False\<rparr>"

datatype GainEvent =
  SetValueAtTime real real
| LinearRampToValueAtTime real real

datatype Output = DryGain | WetGain | Destination

text \<open>
  One grain: \<^verbatim>\<open>source.playbackRate.value\<close>, the three events put on the grain's gain,
  the nodes the gain is connected to, the arguments of \<^verbatim>\<open>source.start(when, offset,
  duration)\<close> and of \<^verbatim>\<open>source.stop\<close>.
\<close>

record Grain =
  playbackRateValue :: real
  gainEvents :: "GainEvent list"
  connections :: "Output list"
  startWhen :: real
  startOffset :: real
  startDuration :: real
  stopWhen :: real

text \<open>
  The offline graph \<^verbatim>\<open>renderLoop\<close> builds: the arguments of
  \<^verbatim>\<open>new OfflineAudioContext(channels, totalFrames, sampleRate)\<close>, the convolver's
  impulse, the two gains and the grains put on the timeline. The backend renders a
  buffer of \<open>totalFrames\<close> frames from it.
\<close>

record OfflineRender =
  render_channels :: nat
  totalFrames :: int
  render_sampleRate :: real
  render_impulse :: ImpulseBuffer
  render_wetGain :: real
  render_dryGain :: real
  render_grains :: "Grain list"

text \<open>Both failure branches are \<^verbatim>\<open>alert("Load an audio file first.")\<close> and a return.\<close>

definition NoBufferLoaded :: string where
  "NoBufferLoaded = ''Load an audio file first.''"

subsection \<open>The reverb impulse\<close>

text \<open>
  \<^verbatim>\<open>Math.pow\<close> on a positive base. The hook calls it with base \<open>2\<close> and with base
  \<open>1 - i / length\<close> for \<open>i < length\<close>, both positive.
\<close>

definition Math_pow :: "real \<Rightarrow> real \<Rightarrow> real" where
  "Math_pow x y = x powr y"

text \<open>
  \<^verbatim>\<open>makeImpulse\<close> as \<^verbatim>\<open>ensureContext\<close> and \<^verbatim>\<open>updateParams\<close> declare it, on the
  live context. The outer loop fills channel 0, then channel 1, one draw per sample.
\<close>

definition makeImpulse :: "AudioContext \<Rightarrow> random \<Rightarrow> real \<Rightarrow> ImpulseBuffer" where
  "makeImpulse ctx rnd decaySec =
     (let length = max \<lfloor>decaySec * ctx_sampleRate ctx\<rfloor> 1 in
      \<lparr>channelData =
         map (\<lambda>ch. map (\<lambda>i. (rnd (ch * nat length + i) * 2 - 1)
                              * Math_pow (1 - real i / real_of_int length) 2)
                        [0 ..< nat length])
             [0 ..< 2],
       impulse_sampleRate = ctx_sampleRate ctx\<rparr>)"

text \<open>The number of draws one \<^verbatim>\<open>makeImpulse\<close> takes.\<close>

definition impulseDraws :: "real \<Rightarrow> real \<Rightarrow> nat" where
  "impulseDraws sampleRate decaySec = 2 * nat (max \<lfloor>decaySec * sampleRate\<rfloor> 1)"

text \<open>
  \<^verbatim>\<open>makeImpulse\<close> as \<^verbatim>\<open>renderLoop\<close> declares it, on the offline context, whose sample
  rate is the argument.
\<close>

definition makeImpulse_offline :: "real \<Rightarrow> random \<Rightarrow> real \<Rightarrow> ImpulseBuffer" where
  "makeImpulse_offline offlineRate rnd decaySec =
     (let length = max \<lfloor>decaySec * offlineRate\<rfloor> 1 in
      \<lparr>channelData =
         map (\<lambda>ch. map (\<lambda>i. (rnd (ch * nat length + i) * 2 - 1)
                              * Math_pow (1 - real i / real_of_int length) 2)
                        [0 ..< nat length])
             [0 ..< 2],
       impulse_sampleRate = offlineRate\<rparr>)"

subsection \<open>The context, loading, parameters\<close>

text \<open>
  \<open>hwRate\<close> is the sample rate a fresh \<^verbatim>\<open>AudioContext\<close> gets from the platform. A new
  gain node has gain 1. The result is the context, the engine and the draws left.
\<close>

definition ensureContext :: "real \<Rightarrow> random \<Rightarrow> Engine \<Rightarrow> AudioContext \<times> Engine \<times> random" where
  "ensureContext hwRate rnd s =
     (let ctx = (case audioCtxRef s of None \<Rightarrow> \<lparr>ctx_sampleRate = hwRate\<rparr> | Some c \<Rightarrow> c);
          s1 = s\<lparr>audioCtxRef := Some ctx\<rparr>;
          s2 = (case dryGainRef s1 of
                  None \<Rightarrow> s1\<lparr>dryGainRef := Some \<lparr>gain_value = 1\<rparr>\<rparr>
                | Some _ \<Rightarrow> s1);
          s3 = (case wetGainRef s2 of
                  None \<Rightarrow> s2\<lparr>wetGainRef := Some \<lparr>gain_value = 1\<rparr>\<rparr>
                | Some _ \<Rightarrow> s2)
      in case reverbRef s3 of
           None \<Rightarrow>
             (ctx,
              s3\<lparr>reverbRef := Some \<lparr>convolver_buffer =
                                       makeImpulse ctx rnd (reverbDecay (paramsRef s3))\<rparr>\<rparr>,
              dropDraws (impulseDraws (ctx_sampleRate ctx) (reverbDecay (paramsRef s3))) rnd)
         | Some _ \<Rightarrow> (ctx, s3, rnd))"

text \<open>\<^verbatim>\<open>loadFile\<close>, from the decoded buffer on (decoding is the platform's).\<close>

definition loadFile :: "real \<Rightarrow> random \<Rightarrow> AudioBuffer \<Rightarrow> Engine \<Rightarrow> real \<times> Engine" where
  "loadFile hwRate rnd decoded s =
     (let (ctx, s1, rnd1) = ensureContext hwRate rnd s;
          s2 = s1\<lparr>bufferRef := Some decoded, duration := buffer_duration decoded\<rparr>;
          s3 = s2\<lparr>paramsRef := (paramsRef s2)\<lparr>startPoint := 0,
                                               endPoint := buffer_duration decoded\<rparr>\<rparr>
      in (buffer_duration decoded, s3))"

text \<open>The object spread \<^verbatim>\<open>{ ...paramsRef.current, ...partial }\<close>.\<close>

definition spread :: "GranularParams \<Rightarrow> PartialParams \<Rightarrow> GranularParams" where
  "spread current partial =
     \<lparr>grainSizeMs = (case partial_grainSizeMs partial of
                       None \<Rightarrow> grainSizeMs current | Some v \<Rightarrow> v),
      density = (case partial_density partial of
                   None \<Rightarrow> density current | Some v \<Rightarrow> v),
      playbackRate = (case partial_playbackRate partial of
                        None \<Rightarrow> playbackRate current | Some v \<Rightarrow> v),
      detuneSemitones = (case partial_detuneSemitones partial of
                           None \<Rightarrow> detuneSemitones current | Some v \<Rightarrow> v),
      startPoint = (case partial_startPoint partial of
                      None \<Rightarrow> startPoint current | Some v \<Rightarrow> v),
      endPoint = (case partial_endPoint partial of
                    None \<Rightarrow> endPoint current | Some v \<Rightarrow> v),
      attackMs = (case partial_attackMs partial of
                    None \<Rightarrow> attackMs current | Some v \<Rightarrow> v),
      releaseMs = (case partial_releaseMs partial of
                     None \<Rightarrow> releaseMs current | Some v \<Rightarrow> v),
      reverbWet = (case partial_reverbWet partial of
                     None \<Rightarrow> reverbWet current | Some v \<Rightarrow> v),
      reverbDecay = (case partial_reverbDecay partial of
                       None \<Rightarrow> reverbDecay current | Some v \<Rightarrow> v)\<rparr>"

definition updateParams :: "random \<Rightarrow> PartialParams \<Rightarrow> Engine \<Rightarrow> Engine" where
  "updateParams rnd partial s =
     (let s1 = s\<lparr>paramsRef := spread (paramsRef s) partial\<rparr>;
          s2 = (case (partial_reverbWet partial, wetGainRef s1) of
                  (Some wet, Some node) \<Rightarrow> s1\<lparr>wetGainRef := Some (node\<lparr>gain_value := wet\<rparr>)\<rparr>
                | _ \<Rightarrow> s1)
      in case (partial_reverbDecay partial, reverbRef s2, audioCtxRef s2) of
           (Some decay, Some node, Some ctx) \<Rightarrow>
             s2\<lparr>reverbRef := Some (node\<lparr>convolver_buffer := makeImpulse ctx rnd decay\<rparr>)\<rparr>
         | _ \<Rightarrow> s2)"

definition clearTimer :: "Engine \<Rightarrow> Engine" where
  "clearTimer s = (case timerRef s of Some _ \<Rightarrow> s\<lparr>timerRef := None\<rparr> | None \<Rightarrow> s)"

subsection \<open>One grain\<close>

text \<open>
  The constants \<^verbatim>\<open>spawnGrain\<close> computes for a grain. The body of the loop of
  \<^verbatim>\<open>renderLoop\<close> computes the same ones by the same expressions, with the grid time
  \<open>t\<close> where \<^verbatim>\<open>spawnGrain\<close> has \<^verbatim>\<open>ctx.currentTime\<close>. \<open>u\<close> is the draw.
\<close>

definition grainDuration :: "GranularParams \<Rightarrow> real" where
  "grainDuration params = grainSizeMs params / 1000"

definition windowLength :: "GranularParams \<Rightarrow> real" where
  "windowLength params = max (endPoint params - startPoint params) 0.05"

definition offsetRange :: "GranularParams \<Rightarrow> real" where
  "offsetRange params = max (windowLength params - grainDuration params) 0"

definition randomOffset :: "GranularParams \<Rightarrow> real \<Rightarrow> real" where
  "randomOffset params u = u * offsetRange params"

definition offset :: "GranularParams \<Rightarrow> real \<Rightarrow> real" where
  "offset params u = startPoint params + randomOffset params u"

definition detuneMultiplier :: "GranularParams \<Rightarrow> real" where
  "detuneMultiplier params = Math_pow 2 (detuneSemitones params / 12)"

definition maxEnvelope :: "GranularParams \<Rightarrow> real" where
  "maxEnvelope params = max (grainDuration params - 0.005) 0.005"

definition attackSec :: "GranularParams \<Rightarrow> real" where
  "attackSec params = min (attackMs params / 1000) (maxEnvelope params)"

definition releaseSec :: "GranularParams \<Rightarrow> real" where
  "releaseSec params = min (releaseMs params / 1000) (maxEnvelope params - attackSec params)"

definition releaseStart :: "GranularParams \<Rightarrow> real \<Rightarrow> real" where
  "releaseStart params now =
     now + max (grainDuration params - releaseSec params) (attackSec params)"

definition envelope :: "GranularParams \<Rightarrow> real \<Rightarrow> GainEvent list" where
  "envelope params now =
     [SetValueAtTime 0 now,
      LinearRampToValueAtTime 1 (now + attackSec params),
      LinearRampToValueAtTime 0.0001 (releaseStart params now + releaseSec params)]"

text \<open>
  \<^verbatim>\<open>spawnGrain\<close>, the timer's callback: \<open>now\<close> is \<^verbatim>\<open>ctx.currentTime\<close>, \<open>u\<close> the value
  \<^verbatim>\<open>Math.random()\<close> returns. \<open>None\<close> is a return before any node is created.
\<close>

definition spawnGrain :: "Engine \<Rightarrow> real \<Rightarrow> real \<Rightarrow> Grain option" where
  "spawnGrain s now u =
     (let params = paramsRef s in
      if audioCtxRef s = None \<or> bufferRef s = None then None
      else if endPoint params \<le> startPoint params then None
      else Some
        \<lparr>playbackRateValue = playbackRate params * detuneMultiplier params,
         gainEvents = envelope params now,
         connections =
           (if dryGainRef s \<noteq> None then [DryGain] else []) @
           (if wetGainRef s \<noteq> None then [WetGain] else []) @
           (if dryGainRef s = None \<and> wetGainRef s = None then [Destination] else []),
         startWhen = now,
         startOffset = offset params u,
         startDuration = grainDuration params,
         stopWhen = now + grainDuration params + 0.05\<rparr>)"

text \<open>The body of the loop of \<^verbatim>\<open>renderLoop\<close> at grid time \<open>t\<close>: it has no range check.\<close>

definition offlineGrain :: "GranularParams \<Rightarrow> real \<Rightarrow> real \<Rightarrow> Grain" where
  "offlineGrain params t u =
     \<lparr>playbackRateValue = playbackRate params * detuneMultiplier params,
      gainEvents = envelope params t,
      connections = [DryGain, WetGain],
      startWhen = t,
      startOffset = offset params u,
      startDuration = grainDuration params,
      stopWhen = t + grainDuration params + 0.05\<rparr>"

subsection \<open>Live scheduling\<close>

definition intervalMs :: "GranularParams \<Rightarrow> real" where
  "intervalMs params = 1000 / max (density params) 1"

text \<open>
  \<^verbatim>\<open>start\<close>: \<open>Inl\<close> carries the text of the alert. \<^verbatim>\<open>ctx.resume()\<close> changes nothing
  the hook keeps.
\<close>

definition start :: "real \<Rightarrow> random \<Rightarrow> Engine \<Rightarrow> (string + unit) \<times> Engine" where
  "start hwRate rnd s =
     (let (ctx, s1, rnd1) = ensureContext hwRate rnd s in
      if bufferRef s1 = None then (Inl NoBufferLoaded, s1)
      else
        let s2 = clearTimer s1;
            s3 = s2\<lparr>timerRef := Some (intervalMs (paramsRef s2))\<rparr>
        in (Inr (), s3\<lparr>isPlaying := True\<rparr>))"

definition stop :: "Engine \<Rightarrow> Engine" where
  "stop s = (clearTimer s)\<lparr>isPlaying := False\<rparr>"

subsection \<open>Offline rendering\<close>

definition step :: "GranularParams \<Rightarrow> real" where
  "step params = 1 / max (density params) 1"

text \<open>
  The loop \<^verbatim>\<open>for (let t = 0; t < durationSec; t += step)\<close>, from time \<open>t\<close> on: one
  grain and one draw per round.
\<close>

function scheduleGrains :: "GranularParams \<Rightarrow> real \<Rightarrow> real \<Rightarrow> random \<Rightarrow> Grain list" where
  "scheduleGrains params durationSec t rnd =
     (if t < durationSec
      then offlineGrain params t (rnd 0)
             # scheduleGrains params durationSec (t + step params) (dropDraws 1 rnd)
      else [])"
  by pat_completeness auto
termination
proof (relation "measure (\<lambda>(params, durationSec, t, rnd).
                   nat \<lceil>(durationSec - t) / step params\<rceil>)")
  show "wf (measure (\<lambda>(params, durationSec, t, rnd).
              nat \<lceil>(durationSec - t) / step params\<rceil>))"
    by simp
next
  fix params :: GranularParams and durationSec t :: real and rnd :: random
  assume lt: "t < durationSec"
  have pos: "0 < step params" by (simp add: step_def)
  have "(durationSec - (t + step params)) / step params
          = (durationSec - t) / step params - 1"
    using pos by (simp add: field_simps)
  then have eq: "\<lceil>(durationSec - (t + step params)) / step params\<rceil>
                   = \<lceil>(durationSec - t) / step params\<rceil> - 1"
    by simp
  have "0 < (durationSec - t) / step params"
    using lt pos by simp
  then have "0 < \<lceil>(durationSec - t) / step params\<rceil>"
    by simp
  with eq show "((params, durationSec, t + step params, dropDraws 1 rnd),
                 (params, durationSec, t, rnd))
                \<in> measure (\<lambda>(params, durationSec, t, rnd).
                     nat \<lceil>(durationSec - t) / step params\<rceil>)"
    by simp
qed

declare scheduleGrains.simps [simp del]

text \<open>
  \<^verbatim>\<open>renderLoop\<close>. The parameters are read before \<^verbatim>\<open>ensureContext\<close>; the offline
  context takes the live context's sample rate; the impulse is built before the grains
  are scheduled, so it takes the first draws.
\<close>

definition renderLoop ::
    "real \<Rightarrow> random \<Rightarrow> real \<Rightarrow> Engine \<Rightarrow> (string + OfflineRender) \<times> Engine" where
  "renderLoop hwRate rnd durationSec s =
     (case bufferRef s of
        None \<Rightarrow> (Inl NoBufferLoaded, s)
      | Some buffer \<Rightarrow>
          let params = paramsRef s;
              (liveCtx, s1, rnd1) = ensureContext hwRate rnd s;
              sampleRate = ctx_sampleRate liveCtx;
              rnd2 = dropDraws (impulseDraws sampleRate (reverbDecay params)) rnd1
          in (Inr \<lparr>render_channels = numberOfChannels buffer,
                    totalFrames = \<lceil>durationSec * sampleRate\<rceil>,
                    render_sampleRate = sampleRate,
                    render_impulse = makeImpulse_offline sampleRate rnd1 (reverbDecay params),
                    render_wetGain = reverbWet params,
                    render_dryGain = 1,
                    render_grains = scheduleGrains params durationSec 0 rnd2\<rparr>,
              s1))"

subsection \<open>Inputs used in the examples\<close>

text \<open>\<^verbatim>\<open>DEFAULT_PARAMS\<close> of the page that mounts the hook.\<close>

definition DEFAULT_PARAMS :: GranularParams where
  "DEFAULT_PARAMS =
     \<lparr>grainSizeMs = 120, density = 8, playbackRate = 1, detuneSemitones = 0,
      startPoint = 0, endPoint = 1, attackMs = 10, releaseMs = 30,
      reverbWet = 0.25, reverbDecay = 2.5\<rparr>"

text \<open>A partial with no field, one with every field, and the page's \<^verbatim>\<open>{ startPoint: a, endPoint: b }\<close>.\<close>

definition noFields :: PartialParams where
  "noFields =
     \<lparr>partial_grainSizeMs = None, partial_density = None, partial_playbackRate = None,
      partial_detuneSemitones = None, partial_startPoint = None, partial_endPoint = None,
      partial_attackMs = None, partial_releaseMs = None, partial_reverbWet = None,
      partial_reverbDecay = None\<rparr>"

definition allFields :: PartialParams where
  "allFields =
     \<lparr>partial_grainSizeMs = Some 50, partial_density = Some 12,
      partial_playbackRate = Some 2, partial_detuneSemitones = Some (- 5),
      partial_startPoint = Some 1, partial_endPoint = Some 4,
      partial_attackMs = Some 5, partial_releaseMs = Some 40,
      partial_reverbWet = Some 1, partial_reverbDecay = Some 3\<rparr>"

definition region :: "real \<Rightarrow> real \<Rightarrow> PartialParams" where
  "region a b = noFields\<lparr>partial_startPoint := Some a, partial_endPoint := Some b\<rparr>"

definition halves :: random where
  "halves = (\<lambda>k. 1 / 2)"

text \<open>
  The engine after a stereo recording of ten seconds has been loaded on a platform
  running at 44100 Hz, and after the region and the grain size have then been set.
\<close>

definition loaded :: Engine where
  "loaded = snd (loadFile 44100 halves \<lparr>numberOfChannels = 2, buffer_duration = 10\<rparr>
                   (useGranularEngine DEFAULT_PARAMS))"

definition loadedWith :: "real \<Rightarrow> real \<Rightarrow> real \<Rightarrow> Engine" where
  "loadedWith ms a b =
     updateParams halves ((region a b)\<lparr>partial_grainSizeMs := Some ms\<rparr>) loaded"

text \<open>The longest grain the page allows, on a region of a tenth of a second.\<close>

definition longGrain :: GranularParams where
  "longGrain = DEFAULT_PARAMS\<lparr>grainSizeMs := 500, startPoint := 2, endPoint := 2.1\<rparr>"

section \<open>Properties\<close>

subsection \<open>What the operations leave alone\<close>

lemma ensureContext_frame:
  "bufferRef (fst (snd (ensureContext hwRate rnd s))) = bufferRef s"
  "paramsRef (fst (snd (ensureContext hwRate rnd s))) = paramsRef s"
  "timerRef (fst (snd (ensureContext hwRate rnd s))) = timerRef s"
  "duration (fst (snd (ensureContext hwRate rnd s))) = duration s"
  "isPlaying (fst (snd (ensureContext hwRate rnd s))) = isPlaying s"
  by (simp_all add: ensureContext_def Let_def split: option.splits)

lemma ensureContext_ctx:
  "audioCtxRef (fst (snd (ensureContext hwRate rnd s))) = Some (fst (ensureContext hwRate rnd s))"
  "fst (ensureContext hwRate rnd s)
     = (case audioCtxRef s of None \<Rightarrow> \<lparr>ctx_sampleRate = hwRate\<rparr> | Some c \<Rightarrow> c)"
  by (simp_all add: ensureContext_def Let_def split: option.splits)

lemma ensureContext_nodes:
  "dryGainRef (fst (snd (ensureContext hwRate rnd s))) \<noteq> None"
  "wetGainRef (fst (snd (ensureContext hwRate rnd s))) \<noteq> None"
  "reverbRef (fst (snd (ensureContext hwRate rnd s))) \<noteq> None"
  by (simp_all add: ensureContext_def Let_def split: option.splits)

text \<open>Once the graph exists, \<^verbatim>\<open>ensureContext\<close> only returns the context.\<close>

lemma ensureContext_idle:
  assumes "audioCtxRef s = Some c" and "dryGainRef s \<noteq> None"
    and "wetGainRef s \<noteq> None" and "reverbRef s \<noteq> None"
  shows "ensureContext hwRate rnd s = (c, s, rnd)"
  using assms by (auto simp add: ensureContext_def Let_def split: option.splits)

lemma start_no_buffer:
  assumes "bufferRef s = None"
  shows "start hwRate rnd s = (Inl NoBufferLoaded, fst (snd (ensureContext hwRate rnd s)))"
  using assms ensureContext_frame(1)[of hwRate rnd s]
  by (simp add: start_def Let_def case_prod_beta)

lemma start_with_buffer:
  assumes "bufferRef s = Some b"
  shows "fst (start hwRate rnd s) = Inr ()"
    and "timerRef (snd (start hwRate rnd s)) = Some (intervalMs (paramsRef s))"
    and "isPlaying (snd (start hwRate rnd s))"
  using assms ensureContext_frame(1,2)[of hwRate rnd s]
  by (auto simp add: start_def Let_def clearTimer_def case_prod_beta split: option.splits)

lemma loadFile_state:
  "bufferRef (snd (loadFile hwRate rnd decoded s)) = Some decoded"
  "audioCtxRef (snd (loadFile hwRate rnd decoded s)) = Some (fst (ensureContext hwRate rnd s))"
  "paramsRef (snd (loadFile hwRate rnd decoded s))
     = (paramsRef s)\<lparr>startPoint := 0, endPoint := buffer_duration decoded\<rparr>"
  "timerRef (snd (loadFile hwRate rnd decoded s)) = timerRef s"
  "isPlaying (snd (loadFile hwRate rnd decoded s)) = isPlaying s"
  using ensureContext_frame[of hwRate rnd s] ensureContext_ctx(1)[of hwRate rnd s]
  by (simp_all add: loadFile_def Let_def case_prod_beta)

lemma updateParams_state:
  "paramsRef (updateParams rnd partial s) = spread (paramsRef s) partial"
  "bufferRef (updateParams rnd partial s) = bufferRef s"
  "audioCtxRef (updateParams rnd partial s) = audioCtxRef s"
  "timerRef (updateParams rnd partial s) = timerRef s"
  "isPlaying (updateParams rnd partial s) = isPlaying s"
  "duration (updateParams rnd partial s) = duration s"
  "dryGainRef (updateParams rnd partial s) = dryGainRef s"
  by (simp_all add: updateParams_def Let_def split: option.splits)

lemma loaded_state:
  "bufferRef loaded = Some \<lparr>numberOfChannels = 2, buffer_duration = 10\<rparr>"
  "audioCtxRef loaded = Some \<lparr>ctx_sampleRate = 44100\<rparr>"
  "paramsRef loaded = DEFAULT_PARAMS\<lparr>startPoint := 0, endPoint := 10\<rparr>"
  "timerRef loaded = None"
  "isPlaying loaded = False"
  by (simp_all add: loaded_def loadFile_state ensureContext_ctx(2) useGranularEngine_def)

lemma loadedWith_state:
  "bufferRef (loadedWith ms a b) = Some \<lparr>numberOfChannels = 2, buffer_duration = 10\<rparr>"
  "audioCtxRef (loadedWith ms a b) = Some \<lparr>ctx_sampleRate = 44100\<rparr>"
  "paramsRef (loadedWith ms a b)
     = DEFAULT_PARAMS\<lparr>grainSizeMs := ms, startPoint := a, endPoint := b\<rparr>"
  by (simp_all add: loadedWith_def updateParams_state loaded_state spread_def region_def
        noFields_def DEFAULT_PARAMS_def)

subsection \<open>The offline grid\<close>

text \<open>
  Every grain the loop of \<^verbatim>\<open>renderLoop\<close> schedules is the grain of a grid point
  \<open>t + k \<times> step\<close> before \<open>durationSec\<close>, built from the \<open>k\<close>-th draw.
\<close>

lemma scheduleGrains_grid:
  assumes "g \<in> set (scheduleGrains params durationSec t rnd)"
  shows "\<exists>k. g = offlineGrain params (t + real k * step params) (rnd k)
            \<and> t + real k * step params < durationSec"
  using assms
proof (induction params durationSec t rnd rule: scheduleGrains.induct)
  case (1 params durationSec t rnd)
  show ?case
  proof (cases "t < durationSec")
    case False
    with "1.prems" show ?thesis by (simp add: scheduleGrains.simps)
  next
    case True
    from "1.prems" True have "g = offlineGrain params t (rnd 0)
        \<or> g \<in> set (scheduleGrains params durationSec (t + step params) (dropDraws 1 rnd))"
      by (subst (asm) scheduleGrains.simps) auto
    then show ?thesis
    proof
      assume "g = offlineGrain params t (rnd 0)"
      then have "g = offlineGrain params (t + real 0 * step params) (rnd 0)
                   \<and> t + real 0 * step params < durationSec"
        using True by simp
      then show ?thesis by blast
    next
      assume "g \<in> set (scheduleGrains params durationSec (t + step params) (dropDraws 1 rnd))"
      from "1.IH"[OF True this] obtain k where
        k: "g = offlineGrain params (t + step params + real k * step params) (dropDraws 1 rnd k)"
           "t + step params + real k * step params < durationSec"
        by blast
      have "t + step params + real k * step params = t + real (Suc k) * step params"
        by (simp add: algebra_simps)
      with k have "g = offlineGrain params (t + real (Suc k) * step params) (rnd (Suc k))
                     \<and> t + real (Suc k) * step params < durationSec"
        by (simp add: dropDraws_def)
      then show ?thesis by blast
    qed
  qed
qed

text \<open>A render of positive length schedules at least the grain at time 0.\<close>

lemma scheduleGrains_first:
  "0 < durationSec \<Longrightarrow> scheduleGrains params durationSec 0 rnd \<noteq> []"
  by (subst scheduleGrains.simps) simp

subsection \<open>Where a grain reads the source\<close>

lemma offset_bounds:
  assumes "0 \<le> u" and "u < 1"
  shows "startPoint params \<le> offset params u"
    and "offset params u \<le> startPoint params + offsetRange params"
proof -
  have r: "0 \<le> offsetRange params" by (simp add: offsetRange_def)
  show "startPoint params \<le> offset params u"
    using assms r by (simp add: offset_def randomOffset_def)
  have "u * offsetRange params \<le> 1 * offsetRange params"
    using assms r by (intro mult_right_mono) simp_all
  then show "offset params u \<le> startPoint params + offsetRange params"
    by (simp add: offset_def randomOffset_def)
qed

lemma spawnGrain_Some:
  assumes "spawnGrain s now u = Some g"
  shows "startOffset g = offset (paramsRef s) u"
    and "startDuration g = grainDuration (paramsRef s)"
    and "playbackRateValue g = playbackRate (paramsRef s) * detuneMultiplier (paramsRef s)"
    and "gainEvents g = envelope (paramsRef s) now"
    and "startPoint (paramsRef s) < endPoint (paramsRef s)"
    and "bufferRef s \<noteq> None"
  using assms by (auto simp add: spawnGrain_def Let_def split: if_splits)

lemma spawnGrain_produces:
  assumes "audioCtxRef s \<noteq> None" and "bufferRef s \<noteq> None"
    and "startPoint (paramsRef s) < endPoint (paramsRef s)"
  shows "\<exists>g. spawnGrain s now u = Some g"
  using assms by (simp add: spawnGrain_def Let_def)

text \<open>
  C1, as amended. For parameters with \<open>startPoint < endPoint\<close> and every draw \<open>u\<close> in
  \<open>[0, 1)\<close>, the grain of a live tick and the grain of an offline grid point both
  start at or after \<open>startPoint\<close>. When the grain is no longer than the window
  \<open>max (endPoint - startPoint) 0.05\<close>, the grain ends inside the window:
  \<open>offset + grainDuration \<le> startPoint + windowLength\<close>. When the grain is longer
  than the window, its offset is \<open>startPoint\<close> itself.
\<close>

theorem grain_within_window:
  assumes "startPoint params < endPoint params" and "0 \<le> u" and "u < 1"
    and "paramsRef s = params" and "spawnGrain s now u = Some g"
  shows "startPoint params \<le> startOffset g
       \<and> startPoint params \<le> startOffset (offlineGrain params t u)
       \<and> (grainSizeMs params / 1000 \<le> max (endPoint params - startPoint params) 0.05 \<longrightarrow>
            startOffset g + startDuration g
              \<le> startPoint params + max (endPoint params - startPoint params) 0.05
          \<and> startOffset (offlineGrain params t u) + startDuration (offlineGrain params t u)
              \<le> startPoint params + max (endPoint params - startPoint params) 0.05)
       \<and> (max (endPoint params - startPoint params) 0.05 < grainSizeMs params / 1000 \<longrightarrow>
            startOffset g = startPoint params
          \<and> startOffset (offlineGrain params t u) = startPoint params)"
proof -
  have live: "startOffset g = offset params u" "startDuration g = grainSizeMs params / 1000"
    using spawnGrain_Some(1,2)[OF assms(5)] assms(4) by (simp_all add: grainDuration_def)
  have off: "startOffset (offlineGrain params t u) = offset params u"
    "startDuration (offlineGrain params t u) = grainSizeMs params / 1000"
    by (simp_all add: offlineGrain_def grainDuration_def)
  have lo: "startPoint params \<le> offset params u"
    using offset_bounds(1)[OF assms(2,3)] .
  have hi: "offset params u \<le> startPoint params + offsetRange params"
    using offset_bounds(2)[OF assms(2,3)] .
  have fits: "grainSizeMs params / 1000 \<le> max (endPoint params - startPoint params) 0.05 \<Longrightarrow>
      offset params u + grainSizeMs params / 1000
        \<le> startPoint params + max (endPoint params - startPoint params) 0.05"
    using hi by (simp add: offsetRange_def windowLength_def grainDuration_def)
  have long: "max (endPoint params - startPoint params) 0.05 < grainSizeMs params / 1000 \<Longrightarrow>
      offset params u = startPoint params"
    by (simp add: offset_def randomOffset_def offsetRange_def windowLength_def grainDuration_def)
  show ?thesis
    using lo fits long by (simp add: live off)
qed

text \<open>
  C1 as stated fails for a grain longer than the window. With a grain of 500 ms on the
  region from 2 s to 2.1 s and the draw 0, the grain starts at 2 s and ends at 2.5 s,
  beyond \<open>startPoint + windowLength = 2.1\<close>, offline and live.
\<close>

theorem long_grain_exceeds_window:
  "startPoint longGrain < endPoint longGrain
   \<and> \<not> (startOffset (offlineGrain longGrain 0 0) + grainDuration longGrain
          \<le> startPoint longGrain + windowLength longGrain)
   \<and> spawnGrain (loadedWith 500 2 2.1) 0 0 \<noteq> None
   \<and> paramsRef (loadedWith 500 2 2.1) = longGrain
   \<and> \<not> (startOffset (the (spawnGrain (loadedWith 500 2 2.1) 0 0)) + grainDuration longGrain
          \<le> startPoint longGrain + windowLength longGrain)"
  by (simp add: longGrain_def DEFAULT_PARAMS_def offlineGrain_def offset_def randomOffset_def
        offsetRange_def windowLength_def grainDuration_def spawnGrain_def loadedWith_state
        Let_def)

text \<open>
  The amended C1 at two inputs, with the draw \<open>1/2\<close>: a grain of 120 ms on the region
  from 2 s to 3 s, which stays inside it, and a grain of 500 ms on the region from 2 s to
  2.1 s, which starts at 2 s.
\<close>

theorem grain_within_window_witness:
  "startPoint (paramsRef (loadedWith 120 2 3)) < endPoint (paramsRef (loadedWith 120 2 3))
   \<and> (0::real) \<le> 1 / 2 \<and> (1::real) / 2 < 1
   \<and> (\<exists>g. spawnGrain (loadedWith 120 2 3) 0 (1 / 2) = Some g
          \<and> 2 \<le> startOffset g \<and> startOffset g + startDuration g \<le> 3)
   \<and> 2 \<le> startOffset (offlineGrain (paramsRef (loadedWith 120 2 3)) 0 (1 / 2))
   \<and> startPoint (paramsRef (loadedWith 500 2 2.1)) < endPoint (paramsRef (loadedWith 500 2 2.1))
   \<and> (\<exists>g. spawnGrain (loadedWith 500 2 2.1) 0 (1 / 2) = Some g \<and> startOffset g = 2)"
proof -
  obtain g where g: "spawnGrain (loadedWith 120 2 3) 0 (1 / 2) = Some g"
    using spawnGrain_produces[of "loadedWith 120 2 3" 0 "1 / 2"]
    by (auto simp add: loadedWith_state)
  obtain h where h: "spawnGrain (loadedWith 500 2 2.1) 0 (1 / 2) = Some h"
    using spawnGrain_produces[of "loadedWith 500 2 2.1" 0 "1 / 2"]
    by (auto simp add: loadedWith_state)
  have a: "2 \<le> startOffset g \<and> startOffset g + startDuration g \<le> 3
     \<and> 2 \<le> startOffset (offlineGrain (paramsRef (loadedWith 120 2 3)) 0 (1 / 2))"
    using grain_within_window[of "paramsRef (loadedWith 120 2 3)" "1 / 2"
            "loadedWith 120 2 3" 0 g 0] g
    by (simp add: loadedWith_state DEFAULT_PARAMS_def)
  have b: "startOffset h = 2"
    using grain_within_window[of "paramsRef (loadedWith 500 2 2.1)" "1 / 2"
            "loadedWith 500 2 2.1" 0 h 0] h
    by (simp add: loadedWith_state DEFAULT_PARAMS_def)
  show ?thesis
    using a b g h by (simp add: loadedWith_state DEFAULT_PARAMS_def)
qed

subsection \<open>The envelope\<close>

text \<open>
  C2. For every grain size and every attack and release time, the attack and the
  release together take at most \<open>max (grainDuration - 0.005) 0.005\<close>, where the attack
  is \<open>min (attackMs / 1000) maxEnvelope\<close> and the release is
  \<open>min (releaseMs / 1000) (maxEnvelope - attack)\<close>. With \<open>attackMs = 500\<close>,
  \<open>releaseMs = 500\<close> and \<open>grainSizeMs = 50\<close> the budget is 0.045, the attack 0.045 and
  the release 0.
\<close>

theorem envelope_within_budget:
  "attackSec params + releaseSec params \<le> max (grainSizeMs params / 1000 - 0.005) 0.005
   \<and> attackSec params = min (attackMs params / 1000) (maxEnvelope params)
   \<and> releaseSec params = min (releaseMs params / 1000) (maxEnvelope params - attackSec params)
   \<and> maxEnvelope (params\<lparr>grainSizeMs := 50, attackMs := 500, releaseMs := 500\<rparr>) = 0.045
   \<and> attackSec (params\<lparr>grainSizeMs := 50, attackMs := 500, releaseMs := 500\<rparr>) = 0.045
   \<and> releaseSec (params\<lparr>grainSizeMs := 50, attackMs := 500, releaseMs := 500\<rparr>) = 0"
  by (simp add: releaseSec_def attackSec_def maxEnvelope_def grainDuration_def)

text \<open>
  C8. The release starts, counted from the start of the grain, at
  \<open>max (grainDuration - release) attack\<close>, which is at least the attack time, for
  every parameter set and every clock reading.
\<close>

theorem release_starts_after_attack:
  "releaseStart params now - now
     = max (grainDuration params - releaseSec params) (attackSec params)
   \<and> attackSec params \<le> releaseStart params now - now
   \<and> now + attackSec params \<le> releaseStart params now"
  by (simp add: releaseStart_def)

subsection \<open>The playback rate\<close>

text \<open>
  C3. The rate set on a grain's source is \<open>playbackRate \<times> 2^(detuneSemitones / 12)\<close>, for
  every parameter set, and the grain of an offline grid point has the rate of the grain
  of a live tick under the same parameters. With \<open>playbackRate = 1\<close>, a detune of 12
  gives the rate 2 and a detune of \<open>-12\<close> the rate 1/2, offline and live.
\<close>

theorem effective_rate:
  assumes "spawnGrain s now u = Some g"
  shows "playbackRateValue g
           = playbackRate (paramsRef s) * 2 powr (detuneSemitones (paramsRef s) / 12)
       \<and> playbackRateValue (offlineGrain (paramsRef s) t v) = playbackRateValue g
       \<and> playbackRateValue (offlineGrain params t v)
           = playbackRate params * 2 powr (detuneSemitones params / 12)
       \<and> playbackRateValue
           (offlineGrain (params\<lparr>playbackRate := 1, detuneSemitones := 12\<rparr>) t v) = 2
       \<and> playbackRateValue
           (offlineGrain (params\<lparr>playbackRate := 1, detuneSemitones := - 12\<rparr>) t v) = 1 / 2
       \<and> (\<forall>h. spawnGrain
                 (s\<lparr>paramsRef := (paramsRef s)\<lparr>playbackRate := 1, detuneSemitones := 12\<rparr>\<rparr>)
                 now u = Some h \<longrightarrow> playbackRateValue h = 2)
       \<and> (\<forall>h. spawnGrain
                 (s\<lparr>paramsRef := (paramsRef s)\<lparr>playbackRate := 1, detuneSemitones := - 12\<rparr>\<rparr>)
                 now u = Some h \<longrightarrow> playbackRateValue h = 1 / 2)"
proof -
  have live: "\<And>e h. spawnGrain e now u = Some h \<Longrightarrow> playbackRateValue h
                = playbackRate (paramsRef e) * 2 powr (detuneSemitones (paramsRef e) / 12)"
    using spawnGrain_Some(3) by (simp add: detuneMultiplier_def Math_pow_def)
  have off: "\<And>p. playbackRateValue (offlineGrain p t v)
                = playbackRate p * 2 powr (detuneSemitones p / 12)"
    by (simp add: offlineGrain_def detuneMultiplier_def Math_pow_def)
  have up: "\<And>h. spawnGrain
                 (s\<lparr>paramsRef := (paramsRef s)\<lparr>playbackRate := 1, detuneSemitones := 12\<rparr>\<rparr>)
                 now u = Some h \<Longrightarrow> playbackRateValue h = 2"
    using live by fastforce
  have down: "\<And>h. spawnGrain
                 (s\<lparr>paramsRef := (paramsRef s)\<lparr>playbackRate := 1, detuneSemitones := - 12\<rparr>\<rparr>)
                 now u = Some h \<Longrightarrow> playbackRateValue h = 1 / 2"
    using live by fastforce
  show ?thesis
    using live[OF assms] up down by (simp add: off)
qed

text \<open>
  C3 on the loaded engine: the default parameters give the rate 1, a detune of 12 the
  rate 2 and a detune of \<open>-12\<close> the rate 1/2.
\<close>

theorem effective_rate_witness:
  "(\<exists>g. spawnGrain loaded 0 (1 / 2) = Some g \<and> playbackRateValue g = 1)
   \<and> (\<exists>h. spawnGrain
             (loaded\<lparr>paramsRef := (paramsRef loaded)\<lparr>playbackRate := 1, detuneSemitones := 12\<rparr>\<rparr>)
             0 (1 / 2) = Some h \<and> playbackRateValue h = 2)
   \<and> (\<exists>h. spawnGrain
             (loaded\<lparr>paramsRef := (paramsRef loaded)\<lparr>playbackRate := 1, detuneSemitones := - 12\<rparr>\<rparr>)
             0 (1 / 2) = Some h \<and> playbackRateValue h = 1 / 2)"
proof -
  let ?up = "loaded\<lparr>paramsRef := (paramsRef loaded)\<lparr>playbackRate := 1, detuneSemitones := 12\<rparr>\<rparr>"
  let ?down =
    "loaded\<lparr>paramsRef := (paramsRef loaded)\<lparr>playbackRate := 1, detuneSemitones := - 12\<rparr>\<rparr>"
  obtain g where g: "spawnGrain loaded 0 (1 / 2) = Some g"
    using spawnGrain_produces[of loaded 0 "1 / 2"]
    by (auto simp add: loaded_state DEFAULT_PARAMS_def)
  obtain h where h: "spawnGrain ?up 0 (1 / 2) = Some h"
    using spawnGrain_produces[of ?up 0 "1 / 2"]
    by (auto simp add: loaded_state DEFAULT_PARAMS_def)
  obtain k where k: "spawnGrain ?down 0 (1 / 2) = Some k"
    using spawnGrain_produces[of ?down 0 "1 / 2"]
    by (auto simp add: loaded_state DEFAULT_PARAMS_def)
  note r = effective_rate[OF g, of 0 0 DEFAULT_PARAMS]
  have "playbackRateValue g = 1"
    using r by (simp add: loaded_state DEFAULT_PARAMS_def)
  moreover have "playbackRateValue h = 2"
    using r h by blast
  moreover have "playbackRateValue k = 1 / 2"
    using r k by blast
  ultimately show ?thesis using g h k by simp
qed

subsection \<open>The density floor\<close>

text \<open>
  C4. For every density, zero and negative ones too, the divisor \<open>max density 1\<close> is at
  least 1, so \<open>intervalMs\<close> and \<open>step\<close> are true quotients (multiplying back by the
  divisor gives 1000 and 1), \<open>intervalMs\<close> lies in \<open>(0, 1000]\<close> and \<open>step\<close> in
  \<open>(0, 1]\<close>; a density of at most 1 gives exactly 1000 ms and 1 s. The timer that
  \<^verbatim>\<open>start\<close> creates on an engine with a buffer runs at this interval.
\<close>

theorem density_floor:
  "1 \<le> max (density params) 1
   \<and> intervalMs params * max (density params) 1 = 1000
   \<and> 0 < intervalMs params \<and> intervalMs params \<le> 1000
   \<and> step params * max (density params) 1 = 1
   \<and> 0 < step params \<and> step params \<le> 1
   \<and> (density params \<le> 1 \<longrightarrow> intervalMs params = 1000 \<and> step params = 1)
   \<and> (\<forall>b. bufferRef s = Some b \<longrightarrow>
         timerRef (snd (start hwRate rnd s)) = Some (1000 / max (density (paramsRef s)) 1))"
proof -
  have m: "1 \<le> max (density params) 1" by simp
  then have pos: "0 < max (density params) 1" by linarith
  have i: "intervalMs params * max (density params) 1 = 1000"
    using pos by (simp add: intervalMs_def)
  have s: "step params * max (density params) 1 = 1"
    using pos by (simp add: step_def)
  have ib: "0 < intervalMs params" "intervalMs params \<le> 1000"
    using pos m by (simp_all add: intervalMs_def field_simps)
  have sb: "0 < step params" "step params \<le> 1"
    using pos m by (simp_all add: step_def field_simps)
  have low: "density params \<le> 1 \<Longrightarrow> intervalMs params = 1000 \<and> step params = 1"
    by (simp add: intervalMs_def step_def max_def)
  have t: "\<And>b. bufferRef s = Some b \<Longrightarrow>
         timerRef (snd (start hwRate rnd s)) = Some (1000 / max (density (paramsRef s)) 1)"
    using start_with_buffer(2) by (simp add: intervalMs_def)
  show ?thesis
    using m i s ib sb low t by blast
qed

text \<open>
  C4 at density 0, and on the loaded engine with the default density 8, where the
  timer runs every 125 ms.
\<close>

theorem density_floor_witness:
  "density (DEFAULT_PARAMS\<lparr>density := 0\<rparr>) \<le> 1
   \<and> intervalMs (DEFAULT_PARAMS\<lparr>density := 0\<rparr>) = 1000
   \<and> step (DEFAULT_PARAMS\<lparr>density := 0\<rparr>) = 1
   \<and> bufferRef loaded = Some \<lparr>numberOfChannels = 2, buffer_duration = 10\<rparr>
   \<and> timerRef (snd (start 44100 halves loaded)) = Some 125"
  using density_floor[of "DEFAULT_PARAMS\<lparr>density := 0\<rparr>" loaded 44100 halves]
  by (simp add: loaded_state DEFAULT_PARAMS_def)

subsection \<open>Starting and rendering without a buffer\<close>

lemma renderLoop_no_buffer:
  assumes "bufferRef s = None"
  shows "renderLoop hwRate rnd durationSec s = (Inl NoBufferLoaded, s)"
  using assms by (simp add: renderLoop_def)

lemma spawnGrain_no_buffer:
  assumes "bufferRef s = None"
  shows "spawnGrain s now u = None"
  using assms by (simp add: spawnGrain_def)

text \<open>
  C5. On an engine with no buffer, \<^verbatim>\<open>start\<close> ends in the alert and leaves the
  scheduler as it was: \<open>isPlaying\<close> and the timer are unchanged (so an idle engine
  stays idle, with no timer), as are the parameters, the duration and the missing
  buffer; a tick on the resulting engine schedules no grain. What \<^verbatim>\<open>start\<close> may
  change is the audio graph, which \<^verbatim>\<open>ensureContext\<close> creates on first use before the
  buffer is looked at: a second \<^verbatim>\<open>start\<close> changes nothing at all. \<^verbatim>\<open>renderLoop\<close>
  ends in the same alert, returns no buffer and leaves the engine untouched.
\<close>

theorem no_buffer_no_start:
  assumes "bufferRef s = None"
  shows "fst (start hwRate rnd s) = Inl NoBufferLoaded
       \<and> isPlaying (snd (start hwRate rnd s)) = isPlaying s
       \<and> timerRef (snd (start hwRate rnd s)) = timerRef s
       \<and> paramsRef (snd (start hwRate rnd s)) = paramsRef s
       \<and> duration (snd (start hwRate rnd s)) = duration s
       \<and> bufferRef (snd (start hwRate rnd s)) = None
       \<and> spawnGrain (snd (start hwRate rnd s)) now u = None
       \<and> start hwRate rnd' (snd (start hwRate rnd s))
           = (Inl NoBufferLoaded, snd (start hwRate rnd s))
       \<and> renderLoop hwRate rnd durationSec s = (Inl NoBufferLoaded, s)"
proof -
  let ?s1 = "fst (snd (ensureContext hwRate rnd s))"
  have st: "start hwRate rnd s = (Inl NoBufferLoaded, ?s1)"
    using start_no_buffer[OF assms] .
  have nb: "bufferRef ?s1 = None"
    using assms by (simp add: ensureContext_frame)
  have again: "ensureContext hwRate rnd' ?s1 = (fst (ensureContext hwRate rnd s), ?s1, rnd')"
    by (rule ensureContext_idle) (simp_all add: ensureContext_ctx(1) ensureContext_nodes)
  have twice: "start hwRate rnd' ?s1 = (Inl NoBufferLoaded, ?s1)"
    using start_no_buffer[OF nb, of hwRate rnd'] again by simp
  show ?thesis
    using nb twice renderLoop_no_buffer[OF assms] spawnGrain_no_buffer[OF nb]
    by (simp add: st ensureContext_frame)
qed

text \<open>C5 on the engine as the hook creates it, before any file is loaded.\<close>

theorem no_buffer_no_start_witness:
  "bufferRef (useGranularEngine DEFAULT_PARAMS) = None
   \<and> fst (start 44100 halves (useGranularEngine DEFAULT_PARAMS)) = Inl ''Load an audio file first.''
   \<and> isPlaying (snd (start 44100 halves (useGranularEngine DEFAULT_PARAMS))) = False
   \<and> timerRef (snd (start 44100 halves (useGranularEngine DEFAULT_PARAMS))) = None
   \<and> spawnGrain (snd (start 44100 halves (useGranularEngine DEFAULT_PARAMS))) 0 (1 / 2) = None
   \<and> renderLoop 44100 halves 5 (useGranularEngine DEFAULT_PARAMS)
       = (Inl ''Load an audio file first.'', useGranularEngine DEFAULT_PARAMS)"
proof -
  have nb: "bufferRef (useGranularEngine DEFAULT_PARAMS) = None"
    by (simp add: useGranularEngine_def)
  have idle: "isPlaying (useGranularEngine DEFAULT_PARAMS) = False"
    "timerRef (useGranularEngine DEFAULT_PARAMS) = None"
    by (simp_all add: useGranularEngine_def)
  show ?thesis
    using no_buffer_no_start[OF nb, of 44100 halves 0 "1 / 2" halves 5] nb idle
    by (simp add: NoBufferLoaded_def)
qed

subsection \<open>The offline render target\<close>

lemma renderLoop_with_buffer:
  assumes "bufferRef s = Some buffer"
  shows "fst (renderLoop hwRate rnd durationSec s) =
     Inr \<lparr>render_channels = numberOfChannels buffer,
          totalFrames = \<lceil>durationSec * ctx_sampleRate (fst (ensureContext hwRate rnd s))\<rceil>,
          render_sampleRate = ctx_sampleRate (fst (ensureContext hwRate rnd s)),
          render_impulse =
            makeImpulse_offline (ctx_sampleRate (fst (ensureContext hwRate rnd s)))
              (snd (snd (ensureContext hwRate rnd s))) (reverbDecay (paramsRef s)),
          render_wetGain = reverbWet (paramsRef s),
          render_dryGain = 1,
          render_grains =
            scheduleGrains (paramsRef s) durationSec 0
              (dropDraws (impulseDraws (ctx_sampleRate (fst (ensureContext hwRate rnd s)))
                            (reverbDecay (paramsRef s)))
                 (snd (snd (ensureContext hwRate rnd s))))\<rparr>"
  using assms by (simp add: renderLoop_def Let_def case_prod_beta)

text \<open>
  C6. On an engine with a buffer, \<^verbatim>\<open>renderLoop\<close> sizes the offline context at
  \<open>\<lceil>durationSec \<times> sampleRate\<rceil>\<close> frames for every \<open>durationSec\<close>, where the sample rate
  is the live context's (the platform's rate when the context is created by this call);
  five seconds at 44100 Hz are 220500 frames.
\<close>

theorem render_target_frames:
  assumes "bufferRef s = Some buffer"
  shows "(\<exists>r. fst (renderLoop hwRate rnd durationSec s) = Inr r
            \<and> totalFrames r
                = \<lceil>durationSec * (case audioCtxRef s of None \<Rightarrow> hwRate
                                    | Some c \<Rightarrow> ctx_sampleRate c)\<rceil>
            \<and> render_sampleRate r
                = (case audioCtxRef s of None \<Rightarrow> hwRate | Some c \<Rightarrow> ctx_sampleRate c))
       \<and> ((case audioCtxRef s of None \<Rightarrow> hwRate | Some c \<Rightarrow> ctx_sampleRate c) = 44100 \<longrightarrow>
            (\<exists>r. fst (renderLoop hwRate rnd 5 s) = Inr r \<and> totalFrames r = 220500))"
proof -
  have rate: "ctx_sampleRate (fst (ensureContext hwRate rnd s))
                = (case audioCtxRef s of None \<Rightarrow> hwRate | Some c \<Rightarrow> ctx_sampleRate c)"
    by (simp add: ensureContext_ctx(2) split: option.splits)
  show ?thesis
    by (simp add: renderLoop_with_buffer[OF assms] rate)
qed

text \<open>C6 on the loaded engine, whose context runs at 44100 Hz.\<close>

theorem render_target_frames_witness:
  "bufferRef loaded = Some \<lparr>numberOfChannels = 2, buffer_duration = 10\<rparr>
   \<and> audioCtxRef loaded = Some \<lparr>ctx_sampleRate = 44100\<rparr>
   \<and> (\<exists>r. fst (renderLoop 44100 halves 5 loaded) = Inr r \<and> totalFrames r = 220500)"
  using render_target_frames[of loaded "\<lparr>numberOfChannels = 2, buffer_duration = 10\<rparr>"
          44100 halves 5]
  by (simp add: loaded_state)

subsection \<open>The reverb impulse\<close>

lemma two_channels: "[0 ..< 2] = [0, Suc 0]"
  by (simp add: numeral_2_eq_2)

lemma makeImpulse_channels:
  "channelData (makeImpulse ctx rnd decaySec) =
     [map (\<lambda>i. (rnd i * 2 - 1)
                 * Math_pow (1 - real i / real_of_int (max \<lfloor>decaySec * ctx_sampleRate ctx\<rfloor> 1)) 2)
          [0 ..< nat (max \<lfloor>decaySec * ctx_sampleRate ctx\<rfloor> 1)],
      map (\<lambda>i. (rnd (nat (max \<lfloor>decaySec * ctx_sampleRate ctx\<rfloor> 1) + i) * 2 - 1)
                 * Math_pow (1 - real i / real_of_int (max \<lfloor>decaySec * ctx_sampleRate ctx\<rfloor> 1)) 2)
          [0 ..< nat (max \<lfloor>decaySec * ctx_sampleRate ctx\<rfloor> 1)]]"
  by (simp add: makeImpulse_def Let_def two_channels)

lemma makeImpulse_same:
  "makeImpulse_offline (ctx_sampleRate ctx) rnd decaySec = makeImpulse ctx rnd decaySec"
  by (simp add: makeImpulse_offline_def makeImpulse_def)

lemma decay_curve:
  assumes "i < nat n"
  shows "Math_pow (1 - real i / real_of_int n) 2 = (1 - real i / real (nat n)) ^ 2"
proof -
  have n: "0 < n" using assms by simp
  then have eq: "real (nat n) = real_of_int n" by simp
  have "real i < real_of_int n" using assms n by linarith
  then have "0 \<le> 1 - real i / real_of_int n" using n by (simp add: field_simps)
  then show ?thesis by (simp add: Math_pow_def eq)
qed

text \<open>
  C7. For every decay time and sample rate the impulse has 2 channels of
  \<open>max \<lfloor>decaySec \<times> sampleRate\<rfloor> 1\<close> samples each. Sample \<open>i\<close> of channel \<open>ch\<close> is the
  noise value \<open>2u - 1\<close> of its own draw \<open>u\<close> times \<open>(1 - i / length)\<^sup>2\<close>, and a draw in
  \<open>[0, 1)\<close> gives a noise value from \<open>-1\<close> up to, but not including, \<open>1\<close>. The offline
  \<^verbatim>\<open>makeImpulse\<close> computes, from the same draws, the buffer of the live one; a decay of
  2.5 s at 44100 Hz gives 110250 samples per channel in both.
\<close>

theorem impulse_shape:
  assumes "ch < 2" and "i < nat (max \<lfloor>decaySec * ctx_sampleRate ctx\<rfloor> 1)"
  shows "length (channelData (makeImpulse ctx rnd decaySec)) = 2
       \<and> length (channelData (makeImpulse ctx rnd decaySec) ! ch)
           = nat (max \<lfloor>decaySec * ctx_sampleRate ctx\<rfloor> 1)
       \<and> channelData (makeImpulse ctx rnd decaySec) ! ch ! i
           = (rnd (ch * nat (max \<lfloor>decaySec * ctx_sampleRate ctx\<rfloor> 1) + i) * 2 - 1)
             * (1 - real i / real (nat (max \<lfloor>decaySec * ctx_sampleRate ctx\<rfloor> 1))) ^ 2
       \<and> makeImpulse_offline (ctx_sampleRate ctx) rnd decaySec = makeImpulse ctx rnd decaySec
       \<and> (0 \<le> rnd (ch * nat (max \<lfloor>decaySec * ctx_sampleRate ctx\<rfloor> 1) + i)
            \<and> rnd (ch * nat (max \<lfloor>decaySec * ctx_sampleRate ctx\<rfloor> 1) + i) < 1 \<longrightarrow>
          - 1 \<le> rnd (ch * nat (max \<lfloor>decaySec * ctx_sampleRate ctx\<rfloor> 1) + i) * 2 - 1
            \<and> rnd (ch * nat (max \<lfloor>decaySec * ctx_sampleRate ctx\<rfloor> 1) + i) * 2 - 1 < 1)
       \<and> map length (channelData (makeImpulse \<lparr>ctx_sampleRate = 44100\<rparr> rnd 2.5))
           = [110250, 110250]
       \<and> map length (channelData (makeImpulse_offline 44100 rnd 2.5)) = [110250, 110250]"
proof -
  let ?n = "max \<lfloor>decaySec * ctx_sampleRate ctx\<rfloor> 1"
  have c: "ch = 0 \<or> ch = Suc 0" using assms(1) by linarith
  have len: "length (channelData (makeImpulse ctx rnd decaySec) ! ch) = nat ?n"
    using c by (auto simp add: makeImpulse_channels)
  have val: "channelData (makeImpulse ctx rnd decaySec) ! ch ! i
           = (rnd (ch * nat ?n + i) * 2 - 1) * (1 - real i / real (nat ?n)) ^ 2"
    using c assms(2) decay_curve[OF assms(2)] by (auto simp add: makeImpulse_channels)
  have live: "map length (channelData (makeImpulse \<lparr>ctx_sampleRate = 44100\<rparr> rnd 2.5))
           = [110250, 110250]"
    by (simp add: makeImpulse_channels)
  have off: "map length (channelData (makeImpulse_offline 44100 rnd 2.5)) = [110250, 110250]"
    using makeImpulse_same[of "\<lparr>ctx_sampleRate = 44100\<rparr>" rnd "2.5"] live by simp
  show ?thesis
    using len val live off by (simp add: makeImpulse_channels makeImpulse_same)
qed

text \<open>
  C7 at sample 3 of channel 1 of the shortest impulse the page allows (0.1 s, 4410
  samples at 44100 Hz), with every draw \<open>1/2\<close>, whose noise value is 0.
\<close>

theorem impulse_shape_witness:
  "(1::nat) < 2 \<and> (3::nat) < nat (max \<lfloor>0.1 * ctx_sampleRate \<lparr>ctx_sampleRate = 44100\<rparr>\<rfloor> 1)
   \<and> length (channelData (makeImpulse \<lparr>ctx_sampleRate = 44100\<rparr> halves 0.1) ! 1) = 4410
   \<and> channelData (makeImpulse \<lparr>ctx_sampleRate = 44100\<rparr> halves 0.1) ! 1 ! 3 = 0
   \<and> (0::real) \<le> halves (1 * 4410 + 3) \<and> halves (1 * 4410 + 3) < 1"
  using impulse_shape[of 1 3 "0.1" "\<lparr>ctx_sampleRate = 44100\<rparr>" halves]
  by (simp add: halves_def)

subsection \<open>Merging parameters\<close>

text \<open>
  C9. After \<^verbatim>\<open>updateParams\<close>, for every engine and every partial, each parameter whose
  field is absent from the partial has its previous value, and each parameter whose
  field is present has the supplied value.
\<close>

theorem updateParams_merges:
  "(partial_grainSizeMs partial = None \<longrightarrow>
      grainSizeMs (paramsRef (updateParams rnd partial s)) = grainSizeMs (paramsRef s))
   \<and> (\<forall>v. partial_grainSizeMs partial = Some v \<longrightarrow>
      grainSizeMs (paramsRef (updateParams rnd partial s)) = v)
   \<and> (partial_density partial = None \<longrightarrow>
      density (paramsRef (updateParams rnd partial s)) = density (paramsRef s))
   \<and> (\<forall>v. partial_density partial = Some v \<longrightarrow>
      density (paramsRef (updateParams rnd partial s)) = v)
   \<and> (partial_playbackRate partial = None \<longrightarrow>
      playbackRate (paramsRef (updateParams rnd partial s)) = playbackRate (paramsRef s))
   \<and> (\<forall>v. partial_playbackRate partial = Some v \<longrightarrow>
      playbackRate (paramsRef (updateParams rnd partial s)) = v)
   \<and> (partial_detuneSemitones partial = None \<longrightarrow>
      detuneSemitones (paramsRef (updateParams rnd partial s)) = detuneSemitones (paramsRef s))
   \<and> (\<forall>v. partial_detuneSemitones partial = Some v \<longrightarrow>
      detuneSemitones (paramsRef (updateParams rnd partial s)) = v)
   \<and> (partial_startPoint partial = None \<longrightarrow>
      startPoint (paramsRef (updateParams rnd partial s)) = startPoint (paramsRef s))
   \<and> (\<forall>v. partial_startPoint partial = Some v \<longrightarrow>
      startPoint (paramsRef (updateParams rnd partial s)) = v)
   \<and> (partial_endPoint partial = None \<longrightarrow>
      endPoint (paramsRef (updateParams rnd partial s)) = endPoint (paramsRef s))
   \<and> (\<forall>v. partial_endPoint partial = Some v \<longrightarrow>
      endPoint (paramsRef (updateParams rnd partial s)) = v)
   \<and> (partial_attackMs partial = None \<longrightarrow>
      attackMs (paramsRef (updateParams rnd partial s)) = attackMs (paramsRef s))
   \<and> (\<forall>v. partial_attackMs partial = Some v \<longrightarrow>
      attackMs (paramsRef (updateParams rnd partial s)) = v)
   \<and> (partial_releaseMs partial = None \<longrightarrow>
      releaseMs (paramsRef (updateParams rnd partial s)) = releaseMs (paramsRef s))
   \<and> (\<forall>v. partial_releaseMs partial = Some v \<longrightarrow>
      releaseMs (paramsRef (updateParams rnd partial s)) = v)
   \<and> (partial_reverbWet partial = None \<longrightarrow>
      reverbWet (paramsRef (updateParams rnd partial s)) = reverbWet (paramsRef s))
   \<and> (\<forall>v. partial_reverbWet partial = Some v \<longrightarrow>
      reverbWet (paramsRef (updateParams rnd partial s)) = v)
   \<and> (partial_reverbDecay partial = None \<longrightarrow>
      reverbDecay (paramsRef (updateParams rnd partial s)) = reverbDecay (paramsRef s))
   \<and> (\<forall>v. partial_reverbDecay partial = Some v \<longrightarrow>
      reverbDecay (paramsRef (updateParams rnd partial s)) = v)"
  by (simp add: updateParams_state(1) spread_def)

text \<open>
  C9 on the loaded engine, for the partial with no field (nothing changes) and for a
  partial with every field (every parameter is the supplied one).
\<close>

theorem updateParams_merges_witness:
  "paramsRef (updateParams halves noFields loaded) = paramsRef loaded
   \<and> paramsRef (updateParams halves allFields loaded)
       = \<lparr>grainSizeMs = 50, density = 12, playbackRate = 2, detuneSemitones = - 5,
          startPoint = 1, endPoint = 4, attackMs = 5, releaseMs = 40,
          reverbWet = 1, reverbDecay = 3\<rparr>"
proof -
  have none: "paramsRef (updateParams halves noFields loaded) = paramsRef loaded"
    using updateParams_merges[of noFields halves loaded]
    by (intro GranularParams.equality) (simp_all add: noFields_def)
  have every: "paramsRef (updateParams halves allFields loaded)
       = \<lparr>grainSizeMs = 50, density = 12, playbackRate = 2, detuneSemitones = - 5,
          startPoint = 1, endPoint = 4, attackMs = 5, releaseMs = 40,
          reverbWet = 1, reverbDecay = 3\<rparr>"
    using updateParams_merges[of allFields halves loaded]
    by (intro GranularParams.equality) (simp_all add: allFields_def)
  show ?thesis using none every by simp
qed

subsection \<open>Grains beyond the end point\<close>

text \<open>
  C10. Whenever \<open>0 < endPoint - startPoint < 0.05 - grainDuration\<close>, on an engine
  with a context and a buffer, some draw in \<open>[0, 1)\<close> gives a grain, live and offline
  alike, whose offset lies after \<open>endPoint\<close> and at most at
  \<open>startPoint + 0.05 - grainDuration\<close>; for a grain size that is not negative the
  window is then 0.05 s.
\<close>

theorem offset_beyond_endPoint:
  assumes "0 < endPoint params - startPoint params"
    and "endPoint params - startPoint params < 0.05 - grainSizeMs params / 1000"
    and "paramsRef s = params" and "audioCtxRef s \<noteq> None" and "bufferRef s \<noteq> None"
  shows "(0 \<le> grainSizeMs params \<longrightarrow> windowLength params = 0.05)
       \<and> (\<exists>u g. 0 \<le> u \<and> u < 1 \<and> spawnGrain s now u = Some g
              \<and> endPoint params < startOffset g
              \<and> startOffset g \<le> startPoint params + 0.05 - grainSizeMs params / 1000
              \<and> startOffset (offlineGrain params t u) = startOffset g)"
proof -
  define w where "w = endPoint params - startPoint params"
  define R where "R = 0.05 - grainSizeMs params / 1000"
  define span where "span = offsetRange params"
  define u where "u = (w + R) / (2 * span)"
  have w: "0 < w" "w < R" using assms(1,2) by (simp_all add: w_def R_def)
  have span: "R \<le> span"
    by (simp add: span_def R_def offsetRange_def windowLength_def grainDuration_def)
  then have rpos: "0 < span" using w by linarith
  have widened: "0 \<le> grainSizeMs params \<Longrightarrow> windowLength params = 0.05"
    using assms(2) by (simp add: windowLength_def max_def)
  have u0: "0 \<le> u" using w rpos by (simp add: u_def)
  have u1: "u < 1" using w span rpos by (simp add: u_def)
  have mid: "u * span = (w + R) / 2" using rpos by (simp add: u_def)
  have off: "offset params u = startPoint params + (w + R) / 2"
    using mid by (simp add: offset_def randomOffset_def span_def)
  have ends: "endPoint params = startPoint params + w"
    "startPoint params + 0.05 - grainSizeMs params / 1000 = startPoint params + R"
    by (simp_all add: w_def R_def)
  have "startPoint params + w < offset params u"
    using w(2) by (simp add: off)
  then have above: "endPoint params < offset params u"
    by (simp only: ends(1))
  have "offset params u \<le> startPoint params + R"
    using w(2) by (simp add: off)
  then have below: "offset params u \<le> startPoint params + 0.05 - grainSizeMs params / 1000"
    by (simp only: ends(2))
  obtain g where g: "spawnGrain s now u = Some g"
    using spawnGrain_produces[of s now u] assms(1,3,4,5) by auto
  have live: "startOffset g = offset params u"
    using spawnGrain_Some(1)[OF g] assms(3) by simp
  have offl: "startOffset (offlineGrain params t u) = offset params u"
    by (simp add: offlineGrain_def)
  show ?thesis
    using widened u0 u1 g above below live offl by auto
qed

text \<open>
  C10 for a grain of 10 ms on the region from 2 s to 2.01 s, the narrowest the page
  lets the user select: some draw puts the offset after 2.01 s, at most at 2.04 s.
\<close>

theorem offset_beyond_endPoint_witness:
  "0 < endPoint (paramsRef (loadedWith 10 2 2.01)) - startPoint (paramsRef (loadedWith 10 2 2.01))
   \<and> endPoint (paramsRef (loadedWith 10 2 2.01)) - startPoint (paramsRef (loadedWith 10 2 2.01))
       < 0.05 - grainSizeMs (paramsRef (loadedWith 10 2 2.01)) / 1000
   \<and> windowLength (paramsRef (loadedWith 10 2 2.01)) = 0.05
   \<and> (\<exists>u g. 0 \<le> u \<and> u < 1 \<and> spawnGrain (loadedWith 10 2 2.01) 0 u = Some g
          \<and> 2.01 < startOffset g \<and> startOffset g \<le> 2.04
          \<and> startOffset (offlineGrain (paramsRef (loadedWith 10 2 2.01)) 0 u) = startOffset g)"
  using offset_beyond_endPoint[of "paramsRef (loadedWith 10 2 2.01)" "loadedWith 10 2 2.01" 0 0]
  by (simp add: loadedWith_state DEFAULT_PARAMS_def)

end
